theory Spec2Isabelle
  imports Complex_Main "HOL-Library.AList" "HOL-Library.Char_ord"
    "HOL-Library.List_Lexorder" "HOL-Library.Multiset" "HOL-Library.Product_Lexorder"
begin

section \<open>Data model\<close>

text \<open>
  The pipeline passes issues around as Python dictionaries whose keys may be missing;
  every reader goes through \<^verbatim>\<open>issue.get(key, default)\<close>. An issue is therefore a
  record of optional fields, \<open>None\<close> standing for a missing key, and \<open>get_or\<close> is
  \<^verbatim>\<open>dict.get\<close> with its default.

  Python's floats are idealised as exact rationals: the penalties and weights are the
  decimal constants of the source read as fractions, and sums and products are exact.
  Python strings are byte lists; a character outside ASCII is its UTF-8 encoding.
\<close>

record issue =
  i_file :: "string option"
  i_line :: "int option"
  i_severity :: "string option"
  i_category :: "string option"
  i_tool :: "string option"
  i_message :: "string option"
  i_code :: "string option"
  i_complexity :: "int option"
  i_function :: "string option"
  i_confidence :: "string option"
  i_test_id :: "string option"

definition get_or :: "'a option \<Rightarrow> 'a \<Rightarrow> 'a" where
  "get_or v d = (case v of None \<Rightarrow> d | Some x \<Rightarrow> x)"

datatype error = KeyError string | Exception string

section \<open>Analyzer: deduplication (core/analyzer.py)\<close>

type_synonym issue_key = "string \<times> int \<times> string"

definition issue_key :: "issue \<Rightarrow> issue_key" where
  "issue_key issue =
     (get_or (i_file issue) '''', get_or (i_line issue) 0, get_or (i_message issue) '''')"

text \<open>The loop of \<^verbatim>\<open>_deduplicate_issues\<close>, with its two variables \<open>seen\<close> and
  \<open>unique_issues\<close> as accumulators.\<close>

fun deduplicate_loop :: "issue_key set \<Rightarrow> issue list \<Rightarrow> issue list \<Rightarrow> issue list" where
  "deduplicate_loop seen unique_issues [] = unique_issues"
| "deduplicate_loop seen unique_issues (issue # issues) =
     (let key = issue_key issue in
      if key \<notin> seen
      then deduplicate_loop (insert key seen) (unique_issues @ [issue]) issues
      else deduplicate_loop seen unique_issues issues)"

definition deduplicate_issues :: "issue list \<Rightarrow> issue list" where
  "deduplicate_issues issues = deduplicate_loop {} [] issues"

section \<open>Scorer (core/scorer.py)\<close>

text \<open>A Python dictionary that keeps insertion order is an association list with
  distinct keys: \<open>map_of\<close> reads it and \<open>AList.update\<close> is the assignment
  \<^verbatim>\<open>d[k] = v\<close> (in place for an existing key, appended for a new one).\<close>

definition dict_get :: "('k \<times> 'v) list \<Rightarrow> 'k \<Rightarrow> 'v \<Rightarrow> 'v" where
  "dict_get d k dflt = get_or (map_of d k) dflt"

definition category_weights :: "(string \<times> rat) list" where
  "category_weights =
     [(''security'', 3 / 10), (''error'', 25 / 100), (''complexity'', 2 / 10),
      (''style'', 15 / 100), (''maintainability'', 1 / 10), (''maintenance'', 5 / 100),
      (''unknown'', 1 / 10)]"

definition severity_penalties :: "(string \<times> rat) list" where
  "severity_penalties =
     [(''error'', 20), (''high'', 15), (''medium'', 10), (''low'', 5), (''info'', 2)]"

definition tool_weights :: "(string \<times> rat) list" where
  "tool_weights =
     [(''bandit'', 15 / 10), (''safety'', 15 / 10), (''radon'', 12 / 10),
      (''flake8'', 1), (''custom'', 8 / 10), (''ai'', 11 / 10)]"

text \<open>\<^verbatim>\<open>_group_issues_by_category\<close>: a new category gets an empty list, then the
  issue is appended to the category's list.\<close>

definition add_to_category ::
  "(string \<times> issue list) list \<Rightarrow> issue \<Rightarrow> (string \<times> issue list) list" where
  "add_to_category categories issue =
     (let category = get_or (i_category issue) ''unknown'' in
      case map_of categories category of
        None \<Rightarrow> AList.update category ([] @ [issue]) categories
      | Some members \<Rightarrow> AList.update category (members @ [issue]) categories)"

fun group_loop ::
  "(string \<times> issue list) list \<Rightarrow> issue list \<Rightarrow> (string \<times> issue list) list" where
  "group_loop categories [] = categories"
| "group_loop categories (issue # issues) =
     group_loop (add_to_category categories issue) issues"

definition group_issues_by_category :: "issue list \<Rightarrow> (string \<times> issue list) list" where
  "group_issues_by_category issues = group_loop [] issues"

text \<open>\<^verbatim>\<open>_calculate_category_penalty\<close>: one pass of the loop body, then the loop.\<close>

definition issue_penalty :: "string \<Rightarrow> issue \<Rightarrow> rat" where
  "issue_penalty category issue =
     (let severity = get_or (i_severity issue) ''info'';
          tool = get_or (i_tool issue) ''unknown'';
          base_penalty = dict_get severity_penalties severity 5;
          tool_weight = dict_get tool_weights tool 1;
          base_penalty' =
            (if category = ''security'' then base_penalty * (15 / 10)
             else if category = ''error'' then base_penalty * (13 / 10)
             else if category = ''complexity'' then base_penalty * (12 / 10)
             else base_penalty)
      in base_penalty' * tool_weight)"

fun penalty_loop :: "string \<Rightarrow> rat \<Rightarrow> issue list \<Rightarrow> rat" where
  "penalty_loop category penalty [] = penalty"
| "penalty_loop category penalty (issue # issues) =
     penalty_loop category (penalty + issue_penalty category issue) issues"

definition calculate_category_penalty :: "string \<Rightarrow> issue list \<Rightarrow> rat" where
  "calculate_category_penalty category issues = penalty_loop category 0 issues"

definition calculate_grade :: "rat \<Rightarrow> string" where
  "calculate_grade score =
     (if score \<ge> 95 then ''A+''
      else if score \<ge> 90 then ''A''
      else if score \<ge> 85 then ''A-''
      else if score \<ge> 80 then ''B+''
      else if score \<ge> 75 then ''B''
      else if score \<ge> 70 then ''B-''
      else if score \<ge> 65 then ''C+''
      else if score \<ge> 60 then ''C''
      else if score \<ge> 55 then ''C-''
      else if score \<ge> 50 then ''D''
      else ''F'')"

text \<open>Rounding to the nearest integer, ties to the even one, as Python's \<^verbatim>\<open>round\<close>
  and its \<^verbatim>\<open>.1f\<close> format do on a value that lies exactly between two candidates;
  \<open>round1\<close> is \<^verbatim>\<open>round(x, 1)\<close>.\<close>

definition round_half_even :: "rat \<Rightarrow> int" where
  "round_half_even x =
     (let f = \<lfloor>x\<rfloor>; d = x - of_int f in
      if d < 1 / 2 then f else if d > 1 / 2 then f + 1
      else if even f then f else f + 1)"

definition round1 :: "rat \<Rightarrow> rat" where
  "round1 x = of_int (round_half_even (x * 10)) / 10"

text \<open>\<^verbatim>\<open>str(n)\<close> for a natural number: its decimal digits.\<close>

definition digit_char :: "nat \<Rightarrow> char" where
  "digit_char d = char_of (of_char CHR ''0'' + d)"

fun str_nat :: "nat \<Rightarrow> string" where
  "str_nat n =
     (if n div 10 = 0 then [digit_char n] else str_nat (n div 10) @ [digit_char (n mod 10)])"

declare str_nat.simps [simp del]

text \<open>\<^verbatim>\<open>f"{score:.1f}"\<close> for a score that is never negative.\<close>

definition format_1f :: "rat \<Rightarrow> string" where
  "format_1f x =
     (let t = nat (round_half_even (x * 10)) in
      str_nat (t div 10) @ ''.'' @ str_nat (t mod 10))"

text \<open>The ASCII characters that \<^verbatim>\<open>str.strip\<close> removes.\<close>

definition isspace :: "char \<Rightarrow> bool" where
  "isspace c \<longleftrightarrow>
     c \<in> set [CHR '' '', CHR 0x09, CHR 0x0A, CHR 0x0B, CHR 0x0C, CHR 0x0D,
              CHR 0x1C, CHR 0x1D, CHR 0x1E, CHR 0x1F]"

definition strip :: "string \<Rightarrow> string" where
  "strip s = rev (dropWhile isspace (rev (dropWhile isspace s)))"

text \<open>\<^verbatim>\<open>severity_counts[severity] += 1\<close> reads the key before it writes it: a severity
  outside the five initial keys raises \<^verbatim>\<open>KeyError\<close>.\<close>

fun count_severities ::
  "(string \<times> nat) list \<Rightarrow> issue list \<Rightarrow> error + (string \<times> nat) list" where
  "count_severities severity_counts [] = Inr severity_counts"
| "count_severities severity_counts (issue # issues) =
     (let severity = get_or (i_severity issue) ''info'' in
      case map_of severity_counts severity of
        None \<Rightarrow> Inl (KeyError severity)
      | Some n \<Rightarrow> count_severities (AList.update severity (n + 1) severity_counts) issues)"

text \<open>\<^verbatim>\<open>d[k] = d.get(k, 0) + 1\<close>\<close>

definition count_inc :: "(string \<times> nat) list \<Rightarrow> string \<Rightarrow> (string \<times> nat) list" where
  "count_inc d k = AList.update k (dict_get d k 0 + 1) d"

fun count_categories :: "(string \<times> nat) list \<Rightarrow> issue list \<Rightarrow> (string \<times> nat) list" where
  "count_categories category_counts [] = category_counts"
| "count_categories category_counts (issue # issues) =
     count_categories (count_inc category_counts (get_or (i_category issue) ''unknown'')) issues"

definition generate_summary ::
  "issue list \<Rightarrow> rat \<Rightarrow> (string \<times> rat) list \<Rightarrow> error + string" where
  "generate_summary issues score category_scores =
     (case count_severities
             [(''error'', 0), (''high'', 0), (''medium'', 0), (''low'', 0), (''info'', 0)]
             issues of
        Inl e \<Rightarrow> Inl e
      | Inr severity_counts \<Rightarrow>
          (let category_counts = count_categories [] issues;
               summary0 =
                 (if score \<ge> 90 then
                    ''Excellent code quality! Score: '' @ format_1f score @ ''/100. ''
                  else if score \<ge> 80 then
                    ''Good code quality with minor issues. Score: '' @ format_1f score @ ''/100. ''
                  else if score \<ge> 70 then
                    ''Code quality needs improvement. Score: '' @ format_1f score @ ''/100. ''
                  else if score \<ge> 60 then
                    ''Code quality is below standards. Score: '' @ format_1f score @ ''/100. ''
                  else
                    ''Code quality is poor and needs significant improvement. Score: ''
                      @ format_1f score @ ''/100. '');
               summary1 = summary0 @
                 (if dict_get severity_counts ''error'' 0 > 0
                  then ''Found '' @ str_nat (dict_get severity_counts ''error'' 0)
                         @ '' errors. ''
                  else []);
               summary2 = summary1 @
                 (if dict_get severity_counts ''high'' 0 > 0
                  then ''Found '' @ str_nat (dict_get severity_counts ''high'' 0)
                         @ '' high-severity issues. ''
                  else []);
               summary3 = summary2 @
                 (if dict_get severity_counts ''medium'' 0 > 0
                  then ''Found '' @ str_nat (dict_get severity_counts ''medium'' 0)
                         @ '' medium-severity issues. ''
                  else []);
               summary4 = summary3 @
                 (if map_of category_counts ''security'' \<noteq> None
                     \<and> dict_get category_counts ''security'' 0 > 0
                  then ''Security issues detected (''
                         @ str_nat (dict_get category_counts ''security'' 0) @ ''). ''
                  else []);
               summary5 = summary4 @
                 (if map_of category_counts ''complexity'' \<noteq> None
                     \<and> dict_get category_counts ''complexity'' 0 > 0
                  then ''Complexity issues found (''
                         @ str_nat (dict_get category_counts ''complexity'' 0) @ ''). ''
                  else [])
           in Inr (strip summary5)))"

record metrics =
  total_issues :: nat
  issues_by_severity :: "(string \<times> nat) list"
  issues_by_category :: "(string \<times> nat) list"
  issues_by_tool :: "(string \<times> nat) list"
  files_affected :: nat
  lines_affected :: nat

text \<open>Python's truth value of \<^verbatim>\<open>issue.get('file')\<close> and \<^verbatim>\<open>issue.get('line')\<close>: a
  missing key gives \<^verbatim>\<open>None\<close>, which is false, as are the empty string and 0.\<close>

definition truthy_str :: "string option \<Rightarrow> bool" where
  "truthy_str v \<longleftrightarrow> (case v of None \<Rightarrow> False | Some s \<Rightarrow> s \<noteq> [])"

definition truthy_int :: "int option \<Rightarrow> bool" where
  "truthy_int v \<longleftrightarrow> (case v of None \<Rightarrow> False | Some n \<Rightarrow> n \<noteq> 0)"

text \<open>The loop of \<^verbatim>\<open>_calculate_metrics\<close>; the two sets are still sets here.\<close>

fun metrics_loop ::
  "(string \<times> nat) list \<Rightarrow> (string \<times> nat) list \<Rightarrow> (string \<times> nat) list \<Rightarrow>
   string set \<Rightarrow> int set \<Rightarrow> issue list \<Rightarrow>
   (string \<times> nat) list \<times> (string \<times> nat) list \<times> (string \<times> nat) list \<times> string set \<times> int set"
  where
  "metrics_loop by_severity by_category by_tool files lines [] =
     (by_severity, by_category, by_tool, files, lines)"
| "metrics_loop by_severity by_category by_tool files lines (issue # issues) =
     metrics_loop
       (count_inc by_severity (get_or (i_severity issue) ''info''))
       (count_inc by_category (get_or (i_category issue) ''unknown''))
       (count_inc by_tool (get_or (i_tool issue) ''unknown''))
       (if truthy_str (i_file issue) then insert (get_or (i_file issue) []) files else files)
       (if truthy_int (i_line issue) then insert (get_or (i_line issue) 0) lines else lines)
       issues"

definition calculate_metrics :: "issue list \<Rightarrow> metrics" where
  "calculate_metrics issues =
     (case metrics_loop [] [] [] {} {} issues of
        (by_severity, by_category, by_tool, files, lines) \<Rightarrow>
          \<lparr>total_issues = length issues,
           issues_by_severity = by_severity,
           issues_by_category = by_category,
           issues_by_tool = by_tool,
           files_affected = card files,
           lines_affected = card lines\<rparr>)"

definition rec_security :: string where
  "rec_security = [CHR 0xF0, CHR 0x9F, CHR 0x94, CHR 0x92] @
     '' Address security issues immediately - these are critical for production safety''"

definition rec_error :: string where
  "rec_error = [CHR 0xE2, CHR 0x9D, CHR 0x8C] @
     '' Fix all errors before merging - these will cause runtime failures''"

definition rec_complexity :: string where
  "rec_complexity = [CHR 0xF0, CHR 0x9F, CHR 0xA7, CHR 0xA9] @
     '' Refactor complex functions to improve maintainability''"

definition rec_style :: string where
  "rec_style = [CHR 0xF0, CHR 0x9F, CHR 0x93, CHR 0x9D] @
     '' Fix style issues to improve code readability''"

definition rec_split :: string where
  "rec_split = [CHR 0xF0, CHR 0x9F, CHR 0x93, CHR 0x8A] @
     '' Consider breaking this PR into smaller, more focused changes''"

definition rec_review :: string where
  "rec_review = [CHR 0xF0, CHR 0x9F, CHR 0x94, CHR 0x8D] @
     '' Review the code more carefully before submitting''"

definition rec_scans :: string where
  "rec_scans = [CHR 0xF0, CHR 0x9F, CHR 0x9B, CHR 0xA1, CHR 0xEF, CHR 0xB8, CHR 0x8F] @
     '' Run security scans regularly in your development workflow''"

definition rec_ci :: string where
  "rec_ci = [CHR 0xF0, CHR 0x9F, CHR 0x93, CHR 0x8A] @
     '' Consider adding complexity checks to your CI/CD pipeline''"

definition generate_recommendations ::
  "issue list \<Rightarrow> (string \<times> rat) list \<Rightarrow> string list" where
  "generate_recommendations issues category_scores =
     (let security_issues = filter (\<lambda>i. i_category i = Some ''security'') issues;
          r1 = (if security_issues \<noteq> [] then [rec_security] else []);
          error_issues = filter (\<lambda>i. i_severity i = Some ''error'') issues;
          r2 = r1 @ (if error_issues \<noteq> [] then [rec_error] else []);
          complexity_issues = filter (\<lambda>i. i_category i = Some ''complexity'') issues;
          r3 = r2 @ (if complexity_issues \<noteq> [] then [rec_complexity] else []);
          style_issues = filter (\<lambda>i. i_category i = Some ''style'') issues;
          r4 = r3 @ (if style_issues \<noteq> [] then [rec_style] else []);
          total_issues = length issues;
          r5 = r4 @ (if total_issues > 20 then [rec_split]
                     else if total_issues > 10 then [rec_review] else []);
          r6 = r5 @ (if list_ex (\<lambda>i. i_tool i = Some ''bandit'') issues then [rec_scans] else []);
          r7 = r6 @ (if list_ex (\<lambda>i. i_tool i = Some ''radon'') issues then [rec_ci] else [])
      in r7)"

text \<open>The result dictionary of \<^verbatim>\<open>score\<close>. The result for the empty input has no
  \<^verbatim>\<open>metrics\<close> and no \<^verbatim>\<open>recommendations\<close> key.\<close>

record score_result =
  total_score :: rat
  grade :: string
  breakdown :: "(string \<times> rat) list"
  summary :: string
  metrics :: "metrics option"
  recommendations :: "string list option"

text \<open>The loop over \<^verbatim>\<open>issues_by_category.items()\<close> in \<^verbatim>\<open>score\<close>.\<close>

fun score_loop ::
  "(string \<times> rat) list \<Rightarrow> rat \<Rightarrow> (string \<times> issue list) list \<Rightarrow> (string \<times> rat) list \<times> rat"
  where
  "score_loop category_scores total_penalty [] = (category_scores, total_penalty)"
| "score_loop category_scores total_penalty ((category, category_issues) # rest) =
     (let category_penalty = calculate_category_penalty category category_issues in
      score_loop
        (AList.update category (max 0 (100 - category_penalty)) category_scores)
        (total_penalty + category_penalty * dict_get category_weights category (1 / 10))
        rest)"

definition score :: "issue list \<Rightarrow> error + score_result" where
  "score issues =
     (if issues = [] then
        Inr \<lparr>total_score = 100, grade = ''A+'',
             breakdown = [(''security'', 100), (''quality'', 100),
                          (''maintainability'', 100), (''style'', 100)],
             summary = ''No issues found - excellent code quality!'',
             metrics = None, recommendations = None\<rparr>
      else
        (let base_score = 100;
             issues_by_category = group_issues_by_category issues
         in case score_loop [] 0 issues_by_category of
              (category_scores, total_penalty) \<Rightarrow>
                (let final_score = max 0 (base_score - total_penalty);
                     grade' = calculate_grade final_score
                 in case generate_summary issues final_score category_scores of
                      Inl e \<Rightarrow> Inl e
                    | Inr summary' \<Rightarrow>
                        (let metrics' = calculate_metrics issues in
                         Inr \<lparr>total_score = round1 final_score, grade = grade',
                              breakdown = category_scores, summary = summary',
                              metrics = Some metrics',
                              recommendations =
                                Some (generate_recommendations issues category_scores)\<rparr>))))"

section \<open>Feedback generator (core/feedback.py)\<close>

text \<open>A feedback item is a dictionary too; the prioritizer reads it with defaults.\<close>

record feedback =
  fb_file :: "string option"
  fb_line :: "int option"
  fb_severity :: "string option"
  fb_category :: "string option"
  fb_message :: "string option"
  fb_suggestions :: "string list option"
  fb_tool :: "string option"
  fb_code :: "string option"
  fb_complexity :: "int option"
  fb_test_id :: "string option"
  fb_confidence :: "string option"

text \<open>The inner dictionary \<^verbatim>\<open>templates['style']\<close>, the only one the generator reads.\<close>

definition style_templates :: "(string \<times> string) list" where
  "style_templates =
     [(''E501'', ''Line too long ({length} characters). Consider breaking it into multiple lines or using line continuation.''),
      (''E302'', ''Expected 2 blank lines before class definition.''),
      (''E305'', ''Expected 2 blank lines after class or function definition.''),
      (''W293'', ''Blank line contains whitespace. Remove trailing whitespace.''),
      (''E111'', ''Indentation is not a multiple of four spaces.''),
      (''E112'', ''Expected an indented block.'')]"

definition generate_flake8_feedback :: "issue \<Rightarrow> feedback" where
  "generate_flake8_feedback issue =
     (let code = get_or (i_code issue) [];
          message = get_or (i_message issue) [];
          line = get_or (i_line issue) 0;
          template_msg = dict_get style_templates code message;
          suggestions =
            (if code = ''E501'' then
               [''Break long lines using parentheses, backslashes, or string concatenation'']
             else if code = ''F841'' then
               [''Remove unused variable or use it in your code'']
             else if code = ''F401'' then
               [''Remove unused import or use the imported module'']
             else [])
      in \<lparr>fb_file = Some (get_or (i_file issue) []),
          fb_line = Some line,
          fb_severity = Some (get_or (i_severity issue) ''info''),
          fb_category = Some ''style'',
          fb_message = Some template_msg,
          fb_suggestions = Some suggestions,
          fb_tool = Some ''flake8'',
          fb_code = Some code,
          fb_complexity = None, fb_test_id = None, fb_confidence = None\<rparr>)"

text \<open>\<^verbatim>\<open>str.lower\<close> on the ASCII letters, and the substring test \<^verbatim>\<open>sub in s\<close>.\<close>

definition lower_char :: "char \<Rightarrow> char" where
  "lower_char c =
     (if CHR ''A'' \<le> c \<and> c \<le> CHR ''Z'' then char_of (of_char c + (32 :: nat)) else c)"

definition lower :: "string \<Rightarrow> string" where
  "lower s = map lower_char s"

fun contains :: "string \<Rightarrow> string \<Rightarrow> bool" where
  "contains sub [] \<longleftrightarrow> sub = []"
| "contains sub (c # s) \<longleftrightarrow> take (length sub) (c # s) = sub \<or> contains sub s"

definition generate_security_feedback :: "issue \<Rightarrow> feedback" where
  "generate_security_feedback issue =
     (let message = get_or (i_message issue) [];
          test_id = get_or (i_test_id issue) [];
          confidence = get_or (i_confidence issue) ''medium'';
          suggestions =
            (if contains ''hardcoded'' (lower message) then
               [''Use environment variables or secure configuration management'',
                ''Consider using a secrets management service'']
             else if contains ''exec'' (lower message) then
               [''Avoid using exec() with user input'',
                ''Consider using safer alternatives like ast.literal_eval()'']
             else [])
      in \<lparr>fb_file = Some (get_or (i_file issue) []),
          fb_line = Some (get_or (i_line issue) 0),
          fb_severity = Some (get_or (i_severity issue) ''high''),
          fb_category = Some ''security'',
          fb_message = Some (''Security issue: '' @ message),
          fb_suggestions = Some suggestions,
          fb_tool = Some ''bandit'',
          fb_code = None, fb_complexity = None,
          fb_test_id = Some test_id,
          fb_confidence = Some confidence\<rparr>)"

text \<open>\<^verbatim>\<open>str(n)\<close> for an integer.\<close>

definition str_int :: "int \<Rightarrow> string" where
  "str_int n = (if 0 \<le> n then str_nat (nat n) else CHR ''-'' # str_nat (nat (- n)))"

definition generate_complexity_feedback :: "issue \<Rightarrow> feedback" where
  "generate_complexity_feedback issue =
     (let complexity = get_or (i_complexity issue) 0;
          function_name = get_or (i_function issue) ''unknown'';
          suggestions =
            [''Break the function into smaller, single-purpose functions'',
             ''Extract complex logic into separate methods'',
             ''Consider using design patterns like Strategy or Command'',
             ''Add early returns to reduce nesting'']
      in \<lparr>fb_file = Some (get_or (i_file issue) []),
          fb_line = Some (get_or (i_line issue) 0),
          fb_severity = Some (get_or (i_severity issue) ''medium''),
          fb_category = Some ''complexity'',
          fb_message = Some (''High complexity in '' @ function_name @ '' (''
                              @ str_int complexity @ '')''),
          fb_suggestions = Some suggestions,
          fb_tool = Some ''radon'',
          fb_code = None,
          fb_complexity = Some complexity,
          fb_test_id = None, fb_confidence = None\<rparr>)"

definition generate_custom_feedback :: "issue \<Rightarrow> feedback" where
  "generate_custom_feedback issue =
     (let category = get_or (i_category issue) ''unknown'';
          message = get_or (i_message issue) [];
          suggestions =
            (if category = ''security'' then
               [''Review the code for potential security vulnerabilities'',
                ''Consider using secure coding practices'']
             else if category = ''maintenance'' then
               [''Address TODO/FIXME comments before merging'',
                ''Consider creating issues for future improvements'']
             else [])
      in \<lparr>fb_file = Some (get_or (i_file issue) []),
          fb_line = Some (get_or (i_line issue) 0),
          fb_severity = Some (get_or (i_severity issue) ''low''),
          fb_category = Some category,
          fb_message = Some message,
          fb_suggestions = Some suggestions,
          fb_tool = Some ''custom'',
          fb_code = None, fb_complexity = None, fb_test_id = None,
          fb_confidence = None\<rparr>)"

definition generate_generic_feedback :: "issue \<Rightarrow> feedback" where
  "generate_generic_feedback issue =
     \<lparr>fb_file = Some (get_or (i_file issue) []),
      fb_line = Some (get_or (i_line issue) 0),
      fb_severity = Some (get_or (i_severity issue) ''info''),
      fb_category = Some (get_or (i_category issue) ''unknown''),
      fb_message = Some (get_or (i_message issue) ''Unknown issue''),
      fb_suggestions = Some [''Review the code for potential improvements''],
      fb_tool = Some (get_or (i_tool issue) ''unknown''),
      fb_code = None, fb_complexity = None, fb_test_id = None, fb_confidence = None\<rparr>"

text \<open>The body of the loop of \<^verbatim>\<open>_generate_template_feedback\<close>: dispatch on the
  tool's name.\<close>

definition template_feedback :: "issue \<Rightarrow> feedback" where
  "template_feedback issue =
     (let tool = get_or (i_tool issue) ''unknown'' in
      if tool = ''flake8'' then generate_flake8_feedback issue
      else if tool = ''bandit'' then generate_security_feedback issue
      else if tool = ''radon'' then generate_complexity_feedback issue
      else if tool = ''custom'' then generate_custom_feedback issue
      else generate_generic_feedback issue)"

fun template_loop :: "feedback list \<Rightarrow> issue list \<Rightarrow> feedback list" where
  "template_loop feedback_items [] = feedback_items"
| "template_loop feedback_items (issue # issues) =
     template_loop (feedback_items @ [template_feedback issue]) issues"

definition generate_template_feedback :: "issue list \<Rightarrow> feedback list" where
  "generate_template_feedback issues = template_loop [] issues"

text \<open>\<^verbatim>\<open>_prioritize_feedback\<close>. Python's \<^verbatim>\<open>sorted\<close> is a stable sort by the key, and
  tuples compare lexicographically, strings by their characters' codes: it is the
  library's stable \<open>sort_key\<close> on the lexicographic order of triples.\<close>

definition severity_order :: "(string \<times> nat) list" where
  "severity_order =
     [(''error'', 0), (''high'', 1), (''medium'', 2), (''low'', 3), (''info'', 4)]"

definition priority_key :: "feedback \<Rightarrow> nat \<times> string \<times> int" where
  "priority_key item =
     (let severity = get_or (fb_severity item) ''info'';
          category = get_or (fb_category item) ''unknown'';
          line = get_or (fb_line item) 0
      in (dict_get severity_order severity 5, category, line))"

definition prioritize_feedback :: "feedback list \<Rightarrow> feedback list" where
  "prioritize_feedback feedback_items = sort_key priority_key feedback_items"

text \<open>
  The AI collaborator (utils/ai\_helpers.py). What \<^verbatim>\<open>AIHelper.generate_feedback\<close> does
  inside its \<^verbatim>\<open>try\<close> block (building the prompt, calling the external service,
  parsing its answer) is the parameter \<open>request\<close>: it returns feedback items or raises.
  The method itself catches every exception and returns the empty list.
\<close>

type_synonym feedback_source = "string \<Rightarrow> issue list \<Rightarrow> error + feedback list"

definition ai_generate_feedback :: "bool \<Rightarrow> feedback_source \<Rightarrow> feedback_source" where
  "ai_generate_feedback enabled request file_path issues =
     (if \<not> enabled then Inr []
      else case request file_path issues of
             Inr items \<Rightarrow> Inr items
           | Inl e \<Rightarrow> Inr [])"

text \<open>\<^verbatim>\<open>FeedbackGenerator.generate\<close>. The generator holds an AI helper exactly when
  \<^verbatim>\<open>use_ai\<close> is set: \<open>None\<close> is the template-only generator. The helper's method is
  called inside \<^verbatim>\<open>try\<close>; an exception (\<open>Inl\<close>) selects the templates for that file.\<close>

definition add_to_file ::
  "(string \<times> issue list) list \<Rightarrow> issue \<Rightarrow> (string \<times> issue list) list" where
  "add_to_file issues_by_file issue =
     (let file_path = get_or (i_file issue) ''unknown'' in
      case map_of issues_by_file file_path of
        None \<Rightarrow> AList.update file_path ([] @ [issue]) issues_by_file
      | Some members \<Rightarrow> AList.update file_path (members @ [issue]) issues_by_file)"

fun group_by_file_loop ::
  "(string \<times> issue list) list \<Rightarrow> issue list \<Rightarrow> (string \<times> issue list) list" where
  "group_by_file_loop issues_by_file [] = issues_by_file"
| "group_by_file_loop issues_by_file (issue # issues) =
     group_by_file_loop (add_to_file issues_by_file issue) issues"

fun generate_loop ::
  "feedback_source option \<Rightarrow> feedback list \<Rightarrow> (string \<times> issue list) list \<Rightarrow> feedback list"
  where
  "generate_loop ai_helper feedback_items [] = feedback_items"
| "generate_loop ai_helper feedback_items ((file_path, file_issues) # rest) =
     (case ai_helper of
        Some generate_feedback \<Rightarrow>
          (case generate_feedback file_path file_issues of
             Inr ai_feedback \<Rightarrow> generate_loop ai_helper (feedback_items @ ai_feedback) rest
           | Inl e \<Rightarrow>
               generate_loop ai_helper
                 (feedback_items @ generate_template_feedback file_issues) rest)
      | None \<Rightarrow>
          generate_loop ai_helper
            (feedback_items @ generate_template_feedback file_issues) rest)"

definition generate :: "feedback_source option \<Rightarrow> issue list \<Rightarrow> feedback list" where
  "generate ai_helper issues =
     prioritize_feedback (generate_loop ai_helper [] (group_by_file_loop [] issues))"

section \<open>Specification-level definitions\<close>

text \<open>The empty dictionary, from which the concrete issues below are built.\<close>

definition issue0 :: issue where
  "issue0 = \<lparr>i_file = None, i_line = None, i_severity = None, i_category = None,
     i_tool = None, i_message = None, i_code = None, i_complexity = None,
     i_function = None, i_confidence = None, i_test_id = None\<rparr>"

text \<open>The fields the scorer reads, with the defaults it reads them with.\<close>

definition category_of :: "issue \<Rightarrow> string" where
  "category_of i = get_or (i_category i) ''unknown''"

definition severity_of :: "issue \<Rightarrow> string" where
  "severity_of i = get_or (i_severity i) ''info''"

definition tool_of :: "issue \<Rightarrow> string" where
  "tool_of i = get_or (i_tool i) ''unknown''"

text \<open>The four tables of the specification, by cases.\<close>

definition severityPenalty :: "string \<Rightarrow> rat" where
  "severityPenalty s =
     (if s = ''error'' then 20 else if s = ''high'' then 15 else if s = ''medium'' then 10
      else if s = ''low'' then 5 else if s = ''info'' then 2 else 5)"

definition toolWeight :: "string \<Rightarrow> rat" where
  "toolWeight t =
     (if t = ''bandit'' \<or> t = ''safety'' then 15 / 10 else if t = ''radon'' then 12 / 10
      else if t = ''flake8'' then 1 else if t = ''custom'' then 8 / 10
      else if t = ''ai'' then 11 / 10 else 1)"

definition categoryMultiplier :: "string \<Rightarrow> rat" where
  "categoryMultiplier c =
     (if c = ''security'' then 15 / 10 else if c = ''error'' then 13 / 10
      else if c = ''complexity'' then 12 / 10 else 1)"

definition categoryWeight :: "string \<Rightarrow> rat" where
  "categoryWeight c =
     (if c = ''security'' then 30 / 100 else if c = ''error'' then 25 / 100
      else if c = ''complexity'' then 20 / 100 else if c = ''style'' then 15 / 100
      else if c = ''maintainability'' then 10 / 100
      else if c = ''maintenance'' then 5 / 100 else 10 / 100)"

text \<open>The penalty of one category: the sum over the issues of that category.\<close>

definition categoryPenalty :: "string \<Rightarrow> issue list \<Rightarrow> rat" where
  "categoryPenalty c xs =
     (\<Sum>i\<leftarrow>filter (\<lambda>i. category_of i = c) xs.
        severityPenalty (severity_of i) * toolWeight (tool_of i) * categoryMultiplier c)"

text \<open>The aggregate penalty: the weighted sum over the categories that occur.\<close>

definition aggregatePenalty :: "issue list \<Rightarrow> rat" where
  "aggregatePenalty xs =
     (\<Sum>c\<in>category_of ` set xs. categoryPenalty c xs * categoryWeight c)"

text \<open>The severities \<^verbatim>\<open>_generate_summary\<close> can count.\<close>

definition known_severity :: "string \<Rightarrow> bool" where
  "known_severity s \<longleftrightarrow> s \<in> set [''error'', ''high'', ''medium'', ''low'', ''info'']"

text \<open>\<^verbatim>\<open>str.startswith\<close>\<close>

definition starts_with :: "string \<Rightarrow> string \<Rightarrow> bool" where
  "starts_with s p \<longleftrightarrow> take (length p) s = p"

text \<open>The severity rank of the specification's prioritizer, by cases.\<close>

definition severityRank :: "string \<Rightarrow> nat" where
  "severityRank s =
     (if s = ''error'' then 0 else if s = ''high'' then 1 else if s = ''medium'' then 2
      else if s = ''low'' then 3 else if s = ''info'' then 4 else 5)"

subsection \<open>Concrete inputs\<close>

text \<open>What the analyzer reports for flake8's W293: \<^verbatim>\<open>_get_severity_from_code\<close> gives
  a code that starts with W the severity \<^verbatim>\<open>'warning'\<close>.\<close>

definition w293_issue :: issue where
  "w293_issue = issue0\<lparr>i_file := Some ''x.py'', i_line := Some 10,
     i_severity := Some ''warning'', i_category := Some ''style'', i_tool := Some ''flake8'',
     i_message := Some ''blank line contains whitespace'', i_code := Some ''W293''\<rparr>"

text \<open>The single issue of the specification's scenario.\<close>

definition scenario_issue :: issue where
  "scenario_issue = issue0\<lparr>i_file := Some ''x.py'', i_line := Some 10,
     i_severity := Some ''high'', i_category := Some ''security'',
     i_tool := Some ''bandit-like'',
     i_message := Some ''Potential hardcoded secret detected''\<rparr>"







text \<open>Two files, and a request to the external service that raises for the first
  file and answers for the second.\<close>

definition issue_a :: issue where
  "issue_a = issue0\<lparr>i_file := Some ''a.py'', i_line := Some 1,
     i_severity := Some ''medium'', i_category := Some ''style'', i_tool := Some ''flake8'',
     i_message := Some ''Test issue''\<rparr>"

definition issue_b :: issue where
  "issue_b = issue0\<lparr>i_file := Some ''b.py'', i_line := Some 2,
     i_severity := Some ''medium'', i_category := Some ''style'', i_tool := Some ''flake8'',
     i_message := Some ''Test issue''\<rparr>"

definition ai_item_b :: feedback where
  "ai_item_b = \<lparr>fb_file = Some ''b.py'', fb_line = Some 2, fb_severity = Some ''medium'',
     fb_category = Some ''ai_suggestion'', fb_message = Some ''Rename the variable'',
     fb_suggestions = Some [''Readability''], fb_tool = Some ''ai'',
     fb_code = None, fb_complexity = None, fb_test_id = None, fb_confidence = None\<rparr>"

definition request_fails_on_a :: feedback_source where
  "request_fails_on_a file_path issues =
     (if file_path = ''a.py'' then Inl (Exception ''connection error'') else Inr [ai_item_b])"

text \<open>A repository-level finding: empty file name, line 0.\<close>

definition repo_issue :: issue where
  "repo_issue = issue0\<lparr>i_file := Some [], i_line := Some 0, i_severity := Some ''low'',
     i_category := Some ''maintenance'', i_tool := Some ''custom'',
     i_message := Some ''Found TODO: later''\<rparr>"

text \<open>Four feedback items with the severities low, error, medium, high at lines 1 to 4.\<close>

definition item_with :: "string \<Rightarrow> int \<Rightarrow> feedback" where
  "item_with sev line_no = \<lparr>fb_file = Some ''x.py'', fb_line = Some line_no, fb_severity = Some sev,
     fb_category = Some ''style'', fb_message = Some ''m'', fb_suggestions = Some [],
     fb_tool = Some ''flake8'', fb_code = None, fb_complexity = None, fb_test_id = None,
     fb_confidence = None\<rparr>"

text \<open>The specification's wording of deduplication: the issues at the positions that
  are the first occurrence of their key, in input order.\<close>

definition first_occurrences :: "issue list \<Rightarrow> issue list" where
  "first_occurrences xs =
     map (\<lambda>n. xs ! n)
       (filter (\<lambda>n. \<forall>m\<in>{0..<n}. issue_key (xs ! m) \<noteq> issue_key (xs ! n)) [0..<length xs])"

text \<open>An accumulator-free reading of the deduplication loop: what it appends to
  \<open>unique_issues\<close>.\<close>

fun unseen :: "issue_key set \<Rightarrow> issue list \<Rightarrow> issue list" where
  "unseen seen [] = []"
| "unseen seen (x # xs) =
     (if issue_key x \<in> seen then unseen seen xs
      else x # unseen (insert (issue_key x) seen) xs)"

section \<open>Deduplication keeps first occurrences\<close>

lemma deduplicate_loop_unseen:
  "deduplicate_loop seen acc xs = acc @ unseen seen xs"
  by (induction xs arbitrary: seen acc) (simp_all add: Let_def)

lemma all_less_Suc_split:
  "(\<forall>m<Suc n. P m) \<longleftrightarrow> P 0 \<and> (\<forall>m<n. P (Suc m))"
  by (metis less_Suc_eq_0_disj Suc_less_eq zero_less_Suc)

lemma positions_Cons:
  "map (\<lambda>n. (x # xs) ! n) (filter P [0..<length (x # xs)]) =
     (if P 0 then [x] else []) @ map (\<lambda>n. xs ! n) (filter (\<lambda>n. P (Suc n)) [0..<length xs])"
proof -
  have shift: "[0..<length (x # xs)] = 0 # map Suc [0..<length xs]"
    by (simp add: upt_conv_Cons map_Suc_upt del: upt_Suc)
  show ?thesis
    unfolding shift by (simp add: filter_map o_def)
qed

lemma unseen_positions:
  "unseen seen xs =
     map (\<lambda>n. xs ! n)
       (filter (\<lambda>n. issue_key (xs ! n) \<notin> seen \<and>
                    (\<forall>m<n. issue_key (xs ! m) \<noteq> issue_key (xs ! n)))
          [0..<length xs])"
proof (induction xs arbitrary: seen)
  case Nil
  show ?case by simp
next
  case (Cons x xs)
  show ?case
  proof (cases "issue_key x \<in> seen")
    case True
    have "filter (\<lambda>n. issue_key (xs ! n) \<notin> seen \<and>
              (issue_key x \<noteq> issue_key (xs ! n) \<and>
               (\<forall>m<n. issue_key (xs ! m) \<noteq> issue_key (xs ! n)))) [0..<length xs]
        = filter (\<lambda>n. issue_key (xs ! n) \<notin> seen \<and>
               (\<forall>m<n. issue_key (xs ! m) \<noteq> issue_key (xs ! n))) [0..<length xs]"
      using True by (intro filter_cong refl) auto
    with True show ?thesis
      unfolding positions_Cons by (simp add: all_less_Suc_split Cons.IH [of seen])
  next
    case False
    have "filter (\<lambda>n. issue_key (xs ! n) \<notin> seen \<and>
              (issue_key x \<noteq> issue_key (xs ! n) \<and>
               (\<forall>m<n. issue_key (xs ! m) \<noteq> issue_key (xs ! n)))) [0..<length xs]
        = filter (\<lambda>n. issue_key (xs ! n) \<notin> insert (issue_key x) seen \<and>
               (\<forall>m<n. issue_key (xs ! m) \<noteq> issue_key (xs ! n))) [0..<length xs]"
      by (intro filter_cong refl) auto
    with False show ?thesis
      unfolding positions_Cons
      by (simp add: all_less_Suc_split Cons.IH [of "insert (issue_key x) seen"])
  qed
qed

lemma unseen_keys_fresh: "issue_key ` set (unseen seen xs) \<inter> seen = {}"
  by (induction xs arbitrary: seen) auto

lemma unseen_distinct: "distinct (map issue_key (unseen seen xs))"
proof (induction xs arbitrary: seen)
  case Nil
  show ?case by simp
next
  case (Cons x xs)
  have "issue_key x \<notin> issue_key ` set (unseen (insert (issue_key x) seen) xs)"
    using unseen_keys_fresh [of "insert (issue_key x) seen" xs] by blast
  with Cons.IH show ?case by simp
qed

lemma unseen_key_set:
  "issue_key ` set (unseen seen xs) = issue_key ` set xs - seen"
  by (induction xs arbitrary: seen) auto

text \<open>
  C7. For every issue sequence, deduplication returns exactly the issues standing at the
  first occurrence of their (file, line, message) key (missing fields read as the empty
  string, 0 and the empty string), in input order; the surviving keys are pairwise
  distinct and are all the keys of the input, so every later issue with an equal key is
  dropped whatever its other fields; the empty input gives the empty output.
\<close>

theorem deduplicate_first_occurrences:
  "deduplicate_issues xs = first_occurrences xs
   \<and> distinct (map issue_key (deduplicate_issues xs))
   \<and> issue_key ` set (deduplicate_issues xs) = issue_key ` set xs
   \<and> deduplicate_issues [] = []"
proof -
  have eq: "deduplicate_issues xs = unseen {} xs"
    by (simp add: deduplicate_issues_def deduplicate_loop_unseen)
  have "unseen {} xs = first_occurrences xs"
    by (simp add: unseen_positions first_occurrences_def Ball_def)
  moreover have "distinct (map issue_key (unseen {} xs))"
    by (rule unseen_distinct)
  moreover have "issue_key ` set (unseen {} xs) = issue_key ` set xs"
    by (simp add: unseen_key_set)
  moreover have "deduplicate_issues [] = []"
    by (simp add: deduplicate_issues_def)
  ultimately show ?thesis
    unfolding eq by blast
qed

theorem deduplicate_first_occurrences_witness:
  "deduplicate_issues [issue_a, issue_b, issue_a\<lparr>i_tool := Some ''bandit''\<rparr>] = [issue_a, issue_b]
   \<and> first_occurrences [issue_a, issue_b, issue_a\<lparr>i_tool := Some ''bandit''\<rparr>] = [issue_a, issue_b]"
proof -
  have "first_occurrences [issue_a, issue_b, issue_a\<lparr>i_tool := Some ''bandit''\<rparr>]
      = [issue_a, issue_b]"
    by code_simp
  with deduplicate_first_occurrences [of "[issue_a, issue_b, issue_a\<lparr>i_tool := Some ''bandit''\<rparr>]"]
  show ?thesis by simp
qed

section \<open>The scorer's loops in closed form\<close>

lemma penalty_loop_sum:
  "penalty_loop c p xs = p + (\<Sum>i\<leftarrow>xs. issue_penalty c i)"
  by (induction xs arbitrary: p) (simp_all add: add.assoc)

lemma dict_get_severity_penalties:
  "dict_get severity_penalties s 5 = severityPenalty s"
  by (simp add: dict_get_def severity_penalties_def severityPenalty_def get_or_def)

lemma dict_get_tool_weights:
  "dict_get tool_weights t 1 = toolWeight t"
  by (simp add: dict_get_def tool_weights_def toolWeight_def get_or_def)

lemma dict_get_category_weights:
  "dict_get category_weights c (1 / 10) = categoryWeight c"
  by (simp add: dict_get_def category_weights_def categoryWeight_def get_or_def)

lemma issue_penalty_spec:
  "issue_penalty c i =
     severityPenalty (severity_of i) * toolWeight (tool_of i) * categoryMultiplier c"
  by (simp add: issue_penalty_def Let_def dict_get_severity_penalties dict_get_tool_weights
      categoryMultiplier_def severity_of_def tool_of_def)

lemma group_loop_snoc:
  "group_loop G (xs @ [x]) = add_to_category (group_loop G xs) x"
  by (induction xs arbitrary: G) simp_all

lemma map_of_add_to_category:
  "map_of (add_to_category G x) =
     (map_of G)(category_of x \<mapsto> get_or (map_of G (category_of x)) [] @ [x])"
  by (simp add: add_to_category_def Let_def category_of_def update_conv' get_or_def
      split: option.splits)

lemma distinct_add_to_category:
  "distinct (map fst G) \<Longrightarrow> distinct (map fst (add_to_category G x))"
  by (simp add: add_to_category_def Let_def distinct_update split: option.splits)

lemma group_distinct: "distinct (map fst (group_issues_by_category xs))"
  unfolding group_issues_by_category_def
  by (induction xs rule: rev_induct) (simp_all add: group_loop_snoc distinct_add_to_category)

lemma group_map_of:
  "map_of (group_issues_by_category xs) c =
     (if c \<in> category_of ` set xs then Some (filter (\<lambda>i. category_of i = c) xs) else None)"
  unfolding group_issues_by_category_def
proof (induction xs arbitrary: c rule: rev_induct)
  case Nil
  show ?case by simp
next
  case (snoc x xs)
  have none: "category_of x \<notin> category_of ` set xs \<Longrightarrow>
      filter (\<lambda>i. category_of i = category_of x) xs = []"
  proof -
    assume "category_of x \<notin> category_of ` set xs"
    then have "\<forall>i\<in>set xs. category_of i \<noteq> category_of x"
      by (metis image_eqI)
    then show ?thesis by (simp add: filter_empty_conv)
  qed
  show ?case
    by (auto simp add: group_loop_snoc map_of_add_to_category snoc.IH get_or_def none)
qed

text \<open>The weighted total of a grouping, as the loop of score accumulates it.\<close>

lemma score_loop_total:
  "snd (score_loop cs t G) =
     t + (\<Sum>(c, ys)\<leftarrow>G. calculate_category_penalty c ys * categoryWeight c)"
  by (induction G arbitrary: cs t)
     (auto simp add: Let_def dict_get_category_weights add.assoc)

lemma score_loop_scores:
  "distinct (map fst G) \<Longrightarrow>
   map_of (fst (score_loop cs t G)) c =
     (case map_of G c of
        Some ys \<Rightarrow> Some (max 0 (100 - calculate_category_penalty c ys))
      | None \<Rightarrow> map_of cs c)"
proof (induction G arbitrary: cs t)
  case Nil
  show ?case by simp
next
  case (Cons g G)
  obtain c' ys' where g: "g = (c', ys')" by (cases g)
  from Cons.prems have fresh: "map_of G c' = None" and dist: "distinct (map fst G)"
    by (auto simp: g map_of_eq_None_iff)
  show ?case
    using fresh by (auto simp add: g Let_def Cons.IH [OF dist] update_conv' split: option.splits)
qed

lemma weighted_total_update_Some:
  "map_of G c = Some ys \<Longrightarrow>
   (\<Sum>(c, ys)\<leftarrow>AList.update c (ys @ [x]) G. calculate_category_penalty c ys * categoryWeight c) =
   (\<Sum>(c, ys)\<leftarrow>G. calculate_category_penalty c ys * categoryWeight c)
     + issue_penalty c x * categoryWeight c"
  by (induction G)
     (auto simp add: calculate_category_penalty_def penalty_loop_sum algebra_simps)

lemma weighted_total_update_None:
  "map_of G c = None \<Longrightarrow>
   (\<Sum>(c, ys)\<leftarrow>AList.update c [x] G. calculate_category_penalty c ys * categoryWeight c) =
   (\<Sum>(c, ys)\<leftarrow>G. calculate_category_penalty c ys * categoryWeight c)
     + issue_penalty c x * categoryWeight c"
  by (induction G)
     (auto simp add: calculate_category_penalty_def penalty_loop_sum algebra_simps)

lemma weighted_total_group:
  "(\<Sum>(c, ys)\<leftarrow>group_issues_by_category xs. calculate_category_penalty c ys * categoryWeight c) =
   (\<Sum>i\<leftarrow>xs. issue_penalty (category_of i) i * categoryWeight (category_of i))"
  unfolding group_issues_by_category_def
proof (induction xs rule: rev_induct)
  case Nil
  show ?case by simp
next
  case (snoc x xs)
  show ?case
    by (simp add: group_loop_snoc add_to_category_def Let_def snoc.IH
        weighted_total_update_Some weighted_total_update_None category_of_def
        split: option.splits)
qed


lemma categoryPenalty_Cons:
  "categoryPenalty c (x # xs) =
     (if category_of x = c then issue_penalty c x else 0) + categoryPenalty c xs"
  by (simp add: categoryPenalty_def issue_penalty_spec)

lemma categoryPenalty_absent:
  "c \<notin> category_of ` set xs \<Longrightarrow> categoryPenalty c xs = 0"
proof -
  assume "c \<notin> category_of ` set xs"
  then have "\<forall>i\<in>set xs. category_of i \<noteq> c"
    by (metis image_eqI)
  then have "filter (\<lambda>i. category_of i = c) xs = []"
    by (simp add: filter_empty_conv)
  then show ?thesis by (simp add: categoryPenalty_def)
qed

lemma aggregatePenalty_per_issue:
  "aggregatePenalty xs =
     (\<Sum>i\<leftarrow>xs. issue_penalty (category_of i) i * categoryWeight (category_of i))"
proof (induction xs)
  case Nil
  show ?case by (simp add: aggregatePenalty_def)
next
  case (Cons x xs)
  let ?C = "category_of ` set xs"
  let ?C' = "insert (category_of x) ?C"
  have pointwise: "\<And>c. ((if category_of x = c then issue_penalty c x else 0)
        + categoryPenalty c xs) * categoryWeight c
      = (if c = category_of x then issue_penalty c x * categoryWeight c else 0)
        + categoryPenalty c xs * categoryWeight c"
    by (simp add: algebra_simps)
  have "aggregatePenalty (x # xs) =
      (\<Sum>c\<in>?C'. ((if category_of x = c then issue_penalty c x else 0) + categoryPenalty c xs)
          * categoryWeight c)"
    by (simp add: aggregatePenalty_def categoryPenalty_Cons)
  also have "\<dots> = (\<Sum>c\<in>?C'. (if c = category_of x then issue_penalty c x * categoryWeight c else 0))
      + (\<Sum>c\<in>?C'. categoryPenalty c xs * categoryWeight c)"
    by (simp only: pointwise sum.distrib)
  also have "(\<Sum>c\<in>?C'. (if c = category_of x then issue_penalty c x * categoryWeight c else 0))
      = issue_penalty (category_of x) x * categoryWeight (category_of x)"
    by (simp add: sum.delta)
  also have "(\<Sum>c\<in>?C'. categoryPenalty c xs * categoryWeight c)
      = (\<Sum>c\<in>?C. categoryPenalty c xs * categoryWeight c)"
    by (rule sum.mono_neutral_right) (auto simp: categoryPenalty_absent)
  finally show ?case
    by (simp add: Cons.IH [symmetric] aggregatePenalty_def)
qed

lemma count_severities_returns:
  "(\<exists>sc'. count_severities sc xs = Inr sc') \<longleftrightarrow> (\<forall>i\<in>set xs. severity_of i \<in> fst ` set sc)"
proof (induction xs arbitrary: sc)
  case Nil
  show ?case by simp
next
  case (Cons x xs)
  show ?case
  proof (cases "map_of sc (severity_of x)")
    case None
    then have "severity_of x \<notin> fst ` set sc"
      by (simp add: map_of_eq_None_iff)
    with None show ?thesis
      by (simp add: Let_def severity_of_def [symmetric])
  next
    case (Some n)
    then have mem: "severity_of x \<in> fst ` set sc"
      by (metis map_of_eq_None_iff option.distinct(1))
    then have keys: "insert (severity_of x) (fst ` set sc) = fst ` set sc"
      by blast
    from Some mem show ?thesis
      by (simp add: Let_def severity_of_def [symmetric] Cons.IH dom_update keys)
  qed
qed

lemma generate_summary_returns:
  "(\<exists>s. generate_summary xs sc cs = Inr s) \<longleftrightarrow> (\<forall>i\<in>set xs. known_severity (severity_of i))"
proof -
  let ?init = "[(''error'', 0::nat), (''high'', 0), (''medium'', 0), (''low'', 0), (''info'', 0)]"
  have keys: "fst ` set ?init = {s. known_severity s}"
    by (auto simp: known_severity_def)
  have "(\<exists>s. generate_summary xs sc cs = Inr s) \<longleftrightarrow> (\<exists>sc'. count_severities ?init xs = Inr sc')"
    by (auto simp add: generate_summary_def Let_def split: sum.splits)
  then show ?thesis
    unfolding count_severities_returns keys by simp
qed

lemma score_Nil:
  "score [] = Inr \<lparr>total_score = 100, grade = ''A+'',
             breakdown = [(''security'', 100), (''quality'', 100),
                          (''maintainability'', 100), (''style'', 100)],
             summary = ''No issues found - excellent code quality!'',
             metrics = None, recommendations = None\<rparr>"
  by (simp add: score_def)

lemma score_loop_group:
  "score_loop [] 0 (group_issues_by_category xs) = (cs, tp) \<Longrightarrow>
     tp = aggregatePenalty xs \<and>
     (\<forall>c. map_of cs c =
        (if c \<in> category_of ` set xs then Some (max 0 (100 - categoryPenalty c xs)) else None))"
proof -
  assume eq: "score_loop [] 0 (group_issues_by_category xs) = (cs, tp)"
  have "tp = snd (score_loop [] 0 (group_issues_by_category xs))"
    by (simp add: eq)
  then have tp: "tp = aggregatePenalty xs"
    by (simp add: score_loop_total weighted_total_group aggregatePenalty_per_issue)
  have "cs = fst (score_loop [] 0 (group_issues_by_category xs))"
    by (simp add: eq)
  then have "map_of cs c =
        (if c \<in> category_of ` set xs then Some (max 0 (100 - categoryPenalty c xs)) else None)" for c
    by (simp add: score_loop_scores [OF group_distinct] group_map_of
        calculate_category_penalty_def penalty_loop_sum categoryPenalty_def issue_penalty_spec)
  with tp show ?thesis by blast
qed

lemma score_nonempty:
  assumes "xs \<noteq> []" and "score xs = Inr r"
  shows "total_score r = round1 (max 0 (100 - aggregatePenalty xs))"
    and "grade r = calculate_grade (max 0 (100 - aggregatePenalty xs))"
    and "map_of (breakdown r) c =
        (if c \<in> category_of ` set xs then Some (max 0 (100 - categoryPenalty c xs)) else None)"
    and "metrics r = Some (calculate_metrics xs)"
    and "recommendations r = Some (generate_recommendations xs (breakdown r))"
proof -
  obtain cs tp where loop: "score_loop [] 0 (group_issues_by_category xs) = (cs, tp)"
    by (cases "score_loop [] 0 (group_issues_by_category xs)")
  note closed = score_loop_group [OF loop]
  from assms loop obtain s where
    r: "r = \<lparr>total_score = round1 (max 0 (100 - tp)), grade = calculate_grade (max 0 (100 - tp)),
             breakdown = cs, summary = s, metrics = Some (calculate_metrics xs),
             recommendations = Some (generate_recommendations xs cs)\<rparr>"
    by (auto simp add: score_def Let_def split: sum.splits)
  show "total_score r = round1 (max 0 (100 - aggregatePenalty xs))"
    and "grade r = calculate_grade (max 0 (100 - aggregatePenalty xs))"
    and "map_of (breakdown r) c =
        (if c \<in> category_of ` set xs then Some (max 0 (100 - categoryPenalty c xs)) else None)"
    and "metrics r = Some (calculate_metrics xs)"
    and "recommendations r = Some (generate_recommendations xs (breakdown r))"
    using closed by (simp_all add: r)
qed

lemma score_returns:
  "(\<exists>r. score xs = Inr r) \<longleftrightarrow> (\<forall>i\<in>set xs. known_severity (severity_of i))"
proof (cases "xs = []")
  case True
  then show ?thesis by (simp add: score_def)
next
  case False
  obtain cs tp where loop: "score_loop [] 0 (group_issues_by_category xs) = (cs, tp)"
    by (cases "score_loop [] 0 (group_issues_by_category xs)")
  have "(\<exists>r. score xs = Inr r) \<longleftrightarrow> (\<exists>s. generate_summary xs (max 0 (100 - tp)) cs = Inr s)"
    using False loop by (auto simp add: score_def Let_def split: sum.splits)
  then show ?thesis by (simp add: generate_summary_returns)
qed

section \<open>Rounding and the size of a penalty\<close>

lemma round_half_even_cases:
  "(round_half_even x = \<lfloor>x\<rfloor> \<and> x - of_int \<lfloor>x\<rfloor> \<le> 1 / 2) \<or>
   (round_half_even x = \<lfloor>x\<rfloor> + 1 \<and> 1 / 2 \<le> x - of_int \<lfloor>x\<rfloor>)"
  unfolding round_half_even_def Let_def by (simp only: split: if_splits) linarith

lemma round_half_even_bounds:
  "of_int (round_half_even x) \<le> x + 1 / 2" "x - 1 / 2 \<le> of_int (round_half_even x)"
proof -
  have lo: "of_int \<lfloor>x\<rfloor> \<le> x" and hi: "x < of_int \<lfloor>x\<rfloor> + 1"
    by linarith+
  have "of_int (round_half_even x) \<le> x + 1 / 2 \<and> x - 1 / 2 \<le> of_int (round_half_even x)"
    using round_half_even_cases [of x]
  proof (elim disjE conjE)
    assume e: "round_half_even x = \<lfloor>x\<rfloor>" and "x - of_int \<lfloor>x\<rfloor> \<le> 1 / 2"
    with lo hi show ?thesis unfolding e by linarith
  next
    assume e: "round_half_even x = \<lfloor>x\<rfloor> + 1" and "1 / 2 \<le> x - of_int \<lfloor>x\<rfloor>"
    with lo hi show ?thesis unfolding e of_int_add of_int_1 by linarith
  qed
  then show "of_int (round_half_even x) \<le> x + 1 / 2"
    and "x - 1 / 2 \<le> of_int (round_half_even x)"
    by blast+
qed

lemma round_half_even_0: "round_half_even 0 = 0"
  by (simp add: round_half_even_def)

lemma round_half_even_nonneg: "0 \<le> x \<Longrightarrow> 0 \<le> round_half_even x"
  using round_half_even_cases [of x] by auto

lemma round1_bounds: "round1 x \<le> x + 1 / 20" "x - 1 / 20 \<le> round1 x"
  using round_half_even_bounds [of "x * 10"] by (simp_all add: round1_def field_simps)

lemma round1_0: "round1 0 = 0"
  by (simp add: round1_def round_half_even_0)

lemma round1_nonneg: "0 \<le> x \<Longrightarrow> 0 \<le> round1 x"
  using round_half_even_nonneg [of "x * 10"] by (simp add: round1_def)

lemma round1_drop:
  assumes "0 \<le> x" and "1 / 10 < d"
  shows "round1 (max 0 (x - d)) < round1 x \<or> (round1 x = 0 \<and> round1 (max 0 (x - d)) = 0)"
proof (cases "x - d \<le> 0")
  case True
  then have "round1 (max 0 (x - d)) = 0" by (simp add: max_def round1_0)
  with round1_nonneg [OF assms(1)] show ?thesis by auto
next
  case False
  then have m: "max 0 (x - d) = x - d" by simp
  have "round1 (x - d) \<le> x - d + 1 / 20" by (rule round1_bounds)
  also have "\<dots> < x - 1 / 20" using assms(2) by simp
  also have "\<dots> \<le> round1 x" by (rule round1_bounds)
  finally show ?thesis by (simp add: m)
qed

lemma toolWeight_pos: "8 / 10 \<le> toolWeight t"
  by (simp add: toolWeight_def)

lemma issue_penalty_nonneg: "0 \<le> issue_penalty c i"
  by (simp add: issue_penalty_spec toolWeight_def severityPenalty_def categoryMultiplier_def)

lemma aggregatePenalty_insert:
  "aggregatePenalty (ys @ i # zs) =
     aggregatePenalty (ys @ zs) + issue_penalty (category_of i) i * categoryWeight (category_of i)"
  by (simp add: aggregatePenalty_per_issue)

lemma categoryPenalty_insert:
  "categoryPenalty c (ys @ i # zs) =
     categoryPenalty c (ys @ zs) + (if category_of i = c then issue_penalty c i else 0)"
  by (simp add: categoryPenalty_def issue_penalty_spec)

lemma round1_100: "round1 100 = 100"
  by (simp add: round1_def round_half_even_def)

lemma aggregatePenalty_nonneg: "0 \<le> aggregatePenalty xs"
  unfolding aggregatePenalty_per_issue
  by (rule sum_list_nonneg) (auto simp: issue_penalty_nonneg categoryWeight_def)

lemma categoryPenalty_nonneg: "0 \<le> categoryPenalty c xs"
  unfolding categoryPenalty_def issue_penalty_spec [symmetric]
  by (rule sum_list_nonneg) (auto simp: issue_penalty_nonneg)

lemma score_total_grade:
  assumes "score xs = Inr r"
  shows "total_score r = round1 (max 0 (100 - aggregatePenalty xs))"
    and "grade r = calculate_grade (max 0 (100 - aggregatePenalty xs))"
proof -
  have "total_score r = round1 (max 0 (100 - aggregatePenalty xs))
      \<and> grade r = calculate_grade (max 0 (100 - aggregatePenalty xs))"
  proof (cases "xs = []")
    case True
    with assms have "total_score r = 100" and "grade r = ''A+''"
      by (auto simp: score_Nil)
    with True show ?thesis
      by (simp add: aggregatePenalty_def round1_100 calculate_grade_def)
  next
    case False
    from score_nonempty(1,2) [OF False assms] show ?thesis by simp
  qed
  then show "total_score r = round1 (max 0 (100 - aggregatePenalty xs))"
    and "grade r = calculate_grade (max 0 (100 - aggregatePenalty xs))"
    by blast+
qed

section \<open>The metrics loop in closed form\<close>

lemma metrics_loop_sets:
  "metrics_loop a b c F L xs = (a', b', c', F', L') \<Longrightarrow>
     F' = F \<union> {f. f \<noteq> [] \<and> (\<exists>i\<in>set xs. i_file i = Some f)} \<and>
     L' = L \<union> {l. l \<noteq> 0 \<and> (\<exists>i\<in>set xs. i_line i = Some l)}"
proof (induction xs arbitrary: a b c F L)
  case Nil
  then show ?case by simp
next
  case (Cons x xs)
  have f_eq: "(if truthy_str (i_file x) then insert (get_or (i_file x) []) F else F)
      = F \<union> {f. f \<noteq> [] \<and> i_file x = Some f}"
    by (cases "i_file x") (auto simp: truthy_str_def get_or_def)
  have l_eq: "(if truthy_int (i_line x) then insert (get_or (i_line x) 0) L else L)
      = L \<union> {l. l \<noteq> 0 \<and> i_line x = Some l}"
    by (cases "i_line x") (auto simp: truthy_int_def get_or_def)
  from Cons.prems have
    "metrics_loop (count_inc a (get_or (i_severity x) ''info''))
       (count_inc b (get_or (i_category x) ''unknown''))
       (count_inc c (get_or (i_tool x) ''unknown''))
       (F \<union> {f. f \<noteq> [] \<and> i_file x = Some f})
       (L \<union> {l. l \<noteq> 0 \<and> i_line x = Some l}) xs = (a', b', c', F', L')"
    by (simp only: metrics_loop.simps f_eq l_eq)
  from Cons.IH [OF this] show ?case by auto
qed

lemma calculate_metrics_affected:
  "files_affected (calculate_metrics xs) = card {f. f \<noteq> [] \<and> (\<exists>i\<in>set xs. i_file i = Some f)}"
  "lines_affected (calculate_metrics xs) = card {l. l \<noteq> 0 \<and> (\<exists>i\<in>set xs. i_line i = Some l)}"
proof -
  obtain a b c F L where loop: "metrics_loop [] [] [] {} {} xs = (a, b, c, F, L)"
    by (metis prod_cases5)
  from metrics_loop_sets [OF loop]
  show "files_affected (calculate_metrics xs) = card {f. f \<noteq> [] \<and> (\<exists>i\<in>set xs. i_file i = Some f)}"
    and "lines_affected (calculate_metrics xs) = card {l. l \<noteq> 0 \<and> (\<exists>i\<in>set xs. i_line i = Some l)}"
    by (simp_all add: calculate_metrics_def loop)
qed

section \<open>Claims about the scorer\<close>

text \<open>
  C9. Score on the empty issue sequence returns the fixed perfect result: total score
  100, grade A+, the four categories security, quality, maintainability and style at
  100, the canned summary, and neither metrics nor recommendations (nothing else is
  computed).
\<close>

theorem score_empty:
  "score [] = Inr \<lparr>total_score = 100, grade = ''A+'',
       breakdown = [(''security'', 100), (''quality'', 100),
                    (''maintainability'', 100), (''style'', 100)],
       summary = ''No issues found - excellent code quality!'',
       metrics = None, recommendations = None\<rparr>"
  by (simp add: score_def)

text \<open>
  C1. Score is not total: on the single issue the analyzer reports for flake8's W293,
  whose severity is the string warning, the summary's severity counter has no such key
  and Score raises KeyError instead of defaulting. (The penalty and the metrics loops
  read the same field with a default; deduplication returns the issue.)
\<close>

theorem score_warning_raises:
  "score [w293_issue] = Inl (KeyError ''warning'')
   \<and> deduplicate_issues [w293_issue] = [w293_issue]"
  by code_simp

text \<open>
  C6. Adding one issue of severity error and category security, at any position, to an
  issue sequence that Score accepts gives a sequence that Score accepts too; the total
  score becomes strictly smaller unless it was 0 already, when it stays 0; and the
  security entry of the breakdown is at most 100 and never larger than it was.
\<close>

theorem score_monotone_security_error:
  assumes sev: "i_severity i = Some ''error''"
    and cat: "i_category i = Some ''security''"
    and r: "score (ys @ zs) = Inr r"
  shows "\<exists>r'. score (ys @ i # zs) = Inr r'
      \<and> (total_score r' < total_score r \<or> (total_score r = 0 \<and> total_score r' = 0))
      \<and> (\<exists>s'. map_of (breakdown r') ''security'' = Some s' \<and> s' \<le> 100
            \<and> (\<forall>s. map_of (breakdown r) ''security'' = Some s \<longrightarrow> s' \<le> s))"
proof -
  have sev_i: "severity_of i = ''error''" and cat_i: "category_of i = ''security''"
    using sev cat by (simp_all add: severity_of_def category_of_def get_or_def)
  from r have "\<forall>j\<in>set (ys @ zs). known_severity (severity_of j)"
    using score_returns [of "ys @ zs"] by blast
  then have "\<forall>j\<in>set (ys @ i # zs). known_severity (severity_of j)"
    by (auto simp: sev_i known_severity_def)
  then obtain r' where r': "score (ys @ i # zs) = Inr r'"
    using score_returns [of "ys @ i # zs"] by blast
  define P where "P = aggregatePenalty (ys @ zs)"
  define d where "d = issue_penalty ''security'' i * categoryWeight ''security''"
  have d: "1 / 10 < d"
    using toolWeight_pos [of "tool_of i"]
    by (simp add: d_def issue_penalty_spec sev_i severityPenalty_def categoryMultiplier_def
        categoryWeight_def)
  have P: "0 \<le> P" by (simp add: P_def aggregatePenalty_nonneg)
  have tot: "total_score r = round1 (max 0 (100 - P))"
    using score_total_grade(1) [OF r] by (simp add: P_def)
  have "total_score r' = round1 (max 0 (100 - (P + d)))"
    using score_total_grade(1) [OF r'] by (simp add: aggregatePenalty_insert cat_i P_def d_def)
  also have "max 0 (100 - (P + d)) = max 0 (max 0 (100 - P) - d)"
    using d by (simp add: max_def)
  finally have tot': "total_score r' = round1 (max 0 (max 0 (100 - P) - d))" .
  have total: "total_score r' < total_score r \<or> (total_score r = 0 \<and> total_score r' = 0)"
    unfolding tot tot' by (rule round1_drop) (use d in simp_all)
  define s' where "s' = max 0 (100 - categoryPenalty ''security'' (ys @ i # zs))"
  have ne: "ys @ i # zs \<noteq> []" by simp
  have after: "map_of (breakdown r') ''security'' = Some s'"
    using score_nonempty(3) [OF ne r', of "''security''"] by (simp add: cat_i s'_def)
  have le100: "s' \<le> 100"
    using categoryPenalty_nonneg [of "''security''" "ys @ i # zs"] by (simp add: s'_def)
  have before: "s' \<le> s" if s: "map_of (breakdown r) ''security'' = Some s" for s
  proof (cases "ys @ zs = []")
    case True
    with r s have "s = 100" by (auto simp: score_Nil)
    with le100 show ?thesis by simp
  next
    case False
    from s score_nonempty(3) [OF False r, of "''security''"]
    have "s = max 0 (100 - categoryPenalty ''security'' (ys @ zs))"
      by (simp split: if_splits)
    then show ?thesis
      using issue_penalty_nonneg [of "''security''" i]
      by (simp add: s'_def categoryPenalty_insert cat_i max_def)
  qed
  from r' total after le100 before show ?thesis by blast
qed

theorem score_monotone_security_error_witness:
  "\<exists>r'. score ([issue_a] @ scenario_issue\<lparr>i_severity := Some ''error''\<rparr> # [issue_b]) = Inr r'
      \<and> (total_score r' < total_score (projr (score ([issue_a] @ [issue_b])))
          \<or> (total_score (projr (score ([issue_a] @ [issue_b]))) = 0 \<and> total_score r' = 0))
      \<and> (\<exists>s'. map_of (breakdown r') ''security'' = Some s' \<and> s' \<le> 100
            \<and> (\<forall>s. map_of (breakdown (projr (score ([issue_a] @ [issue_b])))) ''security'' = Some s
                  \<longrightarrow> s' \<le> s))"
proof -
  have sev: "i_severity (scenario_issue\<lparr>i_severity := Some ''error''\<rparr>) = Some ''error''"
    by simp
  have cat: "i_category (scenario_issue\<lparr>i_severity := Some ''error''\<rparr>) = Some ''security''"
    by (simp add: scenario_issue_def issue0_def)
  have ret: "score ([issue_a] @ [issue_b]) = Inr (projr (score ([issue_a] @ [issue_b])))"
    by code_simp
  show ?thesis
    by (rule score_monotone_security_error [OF sev cat ret])
qed

text \<open>
  C10. For a non-empty issue sequence that Score accepts, the metrics are those of the
  metrics loop; it counts as affected files the distinct file names that are present
  and not empty, and as affected lines the distinct line numbers that are present and
  not 0. So an issue whose line is 0 or missing changes nothing in the count of lines,
  and an issue whose file is empty or missing changes nothing in the count of files.
\<close>

theorem metrics_affected_counts:
  assumes "xs \<noteq> []" and "score xs = Inr r"
  shows "metrics r = Some (calculate_metrics xs)
    \<and> files_affected (calculate_metrics xs)
        = card {f. f \<noteq> [] \<and> (\<exists>i\<in>set xs. i_file i = Some f)}
    \<and> lines_affected (calculate_metrics xs)
        = card {l. l \<noteq> 0 \<and> (\<exists>i\<in>set xs. i_line i = Some l)}
    \<and> (i_line j = Some 0 \<or> i_line j = None \<longrightarrow>
          lines_affected (calculate_metrics (ys @ j # zs))
            = lines_affected (calculate_metrics (ys @ zs)))
    \<and> (i_file j = Some [] \<or> i_file j = None \<longrightarrow>
          files_affected (calculate_metrics (ys @ j # zs))
            = files_affected (calculate_metrics (ys @ zs)))"
proof -
  have m: "metrics r = Some (calculate_metrics xs)"
    by (rule score_nonempty(4) [OF assms])
  have lines: "lines_affected (calculate_metrics (ys @ j # zs))
      = lines_affected (calculate_metrics (ys @ zs))"
    if "i_line j = Some 0 \<or> i_line j = None"
  proof -
    from that have "{l. l \<noteq> 0 \<and> (\<exists>i\<in>set (ys @ j # zs). i_line i = Some l)}
        = {l. l \<noteq> 0 \<and> (\<exists>i\<in>set (ys @ zs). i_line i = Some l)}"
      by auto
    then show ?thesis by (simp only: calculate_metrics_affected)
  qed
  have files: "files_affected (calculate_metrics (ys @ j # zs))
      = files_affected (calculate_metrics (ys @ zs))"
    if "i_file j = Some [] \<or> i_file j = None"
  proof -
    from that have "{f. f \<noteq> [] \<and> (\<exists>i\<in>set (ys @ j # zs). i_file i = Some f)}
        = {f. f \<noteq> [] \<and> (\<exists>i\<in>set (ys @ zs). i_file i = Some f)}"
      by auto
    then show ?thesis by (simp only: calculate_metrics_affected)
  qed
  from m lines files show ?thesis
    by (simp only: calculate_metrics_affected) blast
qed

theorem metrics_affected_counts_witness:
  "metrics (projr (score [issue_a, repo_issue])) = Some (calculate_metrics [issue_a, repo_issue])
   \<and> files_affected (calculate_metrics [issue_a, repo_issue]) = 1
   \<and> lines_affected (calculate_metrics [issue_a, repo_issue]) = 1
   \<and> lines_affected (calculate_metrics ([issue_a] @ repo_issue # []))
       = lines_affected (calculate_metrics ([issue_a] @ []))
   \<and> files_affected (calculate_metrics ([issue_a] @ repo_issue # []))
       = files_affected (calculate_metrics ([issue_a] @ []))"
proof -
  have ne: "[issue_a, repo_issue] \<noteq> []"
    by simp
  have ret: "score [issue_a, repo_issue] = Inr (projr (score [issue_a, repo_issue]))"
    by code_simp
  have l0: "i_line repo_issue = Some 0" and f0: "i_file repo_issue = Some []"
    by (simp_all add: repo_issue_def)
  have counts: "files_affected (calculate_metrics [issue_a, repo_issue]) = 1"
    "lines_affected (calculate_metrics [issue_a, repo_issue]) = 1"
    by code_simp+
  from metrics_affected_counts [OF ne ret, of repo_issue "[issue_a]" "[]"] l0 f0 counts
  show ?thesis by simp
qed






section \<open>Claims about the feedback generator\<close>

text \<open>
  C5 (amended). For the single issue of the scenario, whose tool is the string
  bandit-like, Score gives total score 93.2 and security score 77.5, both below 100,
  and the security recommendation; the generator without an AI helper gives exactly
  one item, the generic one: its message is the issue's message unchanged and its only
  suggestion is the generic one. (Were the tool named bandit, the message would carry
  the security marker.)
\<close>

theorem scenario_score_and_feedback:
  "map_sum id total_score (score [scenario_issue]) = Inr (932 / 10)
   \<and> (932 / 10 :: rat) < 100
   \<and> map_sum id breakdown (score [scenario_issue]) = Inr [(''security'', 775 / 10)]
   \<and> (775 / 10 :: rat) < 100
   \<and> map_sum id recommendations (score [scenario_issue]) = Inr (Some [rec_security])
   \<and> generate None [scenario_issue] = [generate_generic_feedback scenario_issue]
   \<and> fb_message (generate_generic_feedback scenario_issue)
       = Some ''Potential hardcoded secret detected''
   \<and> fb_suggestions (generate_generic_feedback scenario_issue)
       = Some [''Review the code for potential improvements'']
   \<and> map fb_message (generate None [scenario_issue\<lparr>i_tool := Some ''bandit''\<rparr>])
       = [Some ''Security issue: Potential hardcoded secret detected'']"
  by code_simp

text \<open>
  The claim C5 as written fails: the one feedback item's message is the issue's own
  message, which does not start with the security marker; only the tool named bandit
  gets the marker.
\<close>

theorem scenario_feedback_counterexample:
  "map fb_message (generate None [scenario_issue]) = [Some ''Potential hardcoded secret detected'']
   \<and> \<not> starts_with ''Potential hardcoded secret detected'' ''Security issue:''"
  by code_simp

text \<open>
  C8. The prioritizer returns a permutation of its input that is sorted by the key
  (severity rank, category, line) and stable: for every key, the items with that key
  keep their input order. The rank is 0 for error, 1 for high, 2 for medium, 3 for low,
  4 for info (also for a missing severity) and 5 for anything else; triples compare
  lexicographically, categories as strings by their characters' codes, lines as
  integers.
\<close>

theorem prioritize_sorted_stable:
  "sorted (map priority_key (prioritize_feedback xs))
   \<and> mset (prioritize_feedback xs) = mset xs
   \<and> (\<forall>k. filter (\<lambda>x. priority_key x = k) (prioritize_feedback xs)
            = filter (\<lambda>x. priority_key x = k) xs)
   \<and> priority_key x =
       (severityRank (get_or (fb_severity x) ''info''), get_or (fb_category x) ''unknown'',
        get_or (fb_line x) 0)
   \<and> (((a :: nat), (b :: string), (c :: int)) \<le> (a', b', c')
        \<longleftrightarrow> a < a' \<or> (a = a' \<and> (b < b' \<or> (b = b' \<and> c \<le> c'))))
   \<and> ((p # s :: string) < q # t \<longleftrightarrow> p < q \<or> (p = q \<and> s < t))
   \<and> ([] :: string) < q # t
   \<and> (p < q \<longleftrightarrow> (of_char p :: nat) < of_char q)"
proof -
  have rank: "dict_get severity_order s 5 = severityRank s" for s
    by (simp add: dict_get_def severity_order_def severityRank_def get_or_def)
  have key: "priority_key x =
       (severityRank (get_or (fb_severity x) ''info''), get_or (fb_category x) ''unknown'',
        get_or (fb_line x) 0)"
    by (simp add: priority_key_def Let_def rank)
  have order: "((a, b, c) \<le> (a', b', c')
        \<longleftrightarrow> a < a' \<or> (a = a' \<and> (b < b' \<or> (b = b' \<and> c \<le> c'))))"
    by (auto simp add: less_eq_prod_def less_prod_def)
  have chars: "p < q \<longleftrightarrow> (of_char p :: nat) < of_char q"
    by (simp add: less_char_def)
  have "sorted (map priority_key (prioritize_feedback xs))"
    and "mset (prioritize_feedback xs) = mset xs"
    and "\<forall>k. filter (\<lambda>x. priority_key x = k) (prioritize_feedback xs)
            = filter (\<lambda>x. priority_key x = k) xs"
    by (simp_all add: prioritize_feedback_def sort_key_stable)
  with key order chars show ?thesis by simp
qed

theorem prioritize_sorted_stable_witness:
  "prioritize_feedback
     [item_with ''low'' 1, item_with ''error'' 2, item_with ''medium'' 3, item_with ''high'' 4,
      item_with ''error'' 2]
   = [item_with ''error'' 2, item_with ''error'' 2, item_with ''high'' 4, item_with ''medium'' 3,
      item_with ''low'' 1]
   \<and> sorted (map priority_key (prioritize_feedback
     [item_with ''low'' 1, item_with ''error'' 2, item_with ''medium'' 3, item_with ''high'' 4,
      item_with ''error'' 2]))"
proof -
  have "prioritize_feedback
     [item_with ''low'' 1, item_with ''error'' 2, item_with ''medium'' 3, item_with ''high'' 4,
      item_with ''error'' 2]
   = [item_with ''error'' 2, item_with ''error'' 2, item_with ''high'' 4, item_with ''medium'' 3,
      item_with ''low'' 1]"
    by code_simp
  moreover have "sorted (map priority_key (prioritize_feedback
     [item_with ''low'' 1, item_with ''error'' 2, item_with ''medium'' 3, item_with ''high'' 4,
      item_with ''error'' 2]))"
    using prioritize_sorted_stable [of
     "[item_with ''low'' 1, item_with ''error'' 2, item_with ''medium'' 3, item_with ''high'' 4,
      item_with ''error'' 2]"]
    by (rule conjunct1)
  ultimately show ?thesis by (rule conjI)
qed

text \<open>The AI helper's method returns a list whatever happens inside it, so the
  generator's own fallback, which does work when the method it calls raises, is never
  taken with this helper.\<close>

lemma ai_generate_feedback_never_raises:
  "\<exists>items. ai_generate_feedback enabled request file_path issues = Inr items"
  by (simp add: ai_generate_feedback_def split: sum.splits)

lemma generate_falls_back_when_helper_raises:
  "generate (Some request_fails_on_a) [issue_a, issue_b]
     = [ai_item_b, generate_flake8_feedback issue_a]"
  by code_simp

text \<open>
  C2. The per-file fallback does not happen with the repository's AI helper: when the
  request to the external service raises for a.py and succeeds for b.py, the helper
  turns the exception into an empty list, and the generator's output holds the
  external item for b.py and nothing at all for a.py, although the templates would
  have given an item.
\<close>

theorem fallback_lost_in_helper:
  "request_fails_on_a ''a.py'' [issue_a] = Inl (Exception ''connection error'')
   \<and> generate (Some (ai_generate_feedback True request_fails_on_a)) [issue_a, issue_b]
       = [ai_item_b]
   \<and> generate_template_feedback [issue_a] = [generate_flake8_feedback issue_a]
   \<and> map fb_file (generate (Some (ai_generate_feedback True request_fails_on_a))
         [issue_a, issue_b]) = [Some ''b.py'']"
  by code_simp

end
